theory Spec2Isabelle
  imports Complex_Main
begin

section \<open>Python values\<close>

text \<open>
  The underwriting tools compute with Python \<open>int\<close> (unbounded, modelled as \<open>int\<close>)
  and Python \<open>float\<close>. A float is modelled as the real number it stands for: the
  arithmetic below is exact, where IEEE doubles round after every operation, and
  infinities, NaN and OverflowError have no counterpart. Everything stated about
  floats in this theory is a statement about that exact arithmetic.

  The exceptions the modelled code can raise are values of \<open>error\<close>; a computation
  that may raise returns \<open>error + 'a\<close>, with \<open>Inl\<close> the exception.
\<close>

datatype error = ValueError | ZeroDivisionError

definition bind_res :: "error + 'a \<Rightarrow> ('a \<Rightarrow> error + 'b) \<Rightarrow> error + 'b" where
  "bind_res m f = (case m of Inl e \<Rightarrow> Inl e | Inr v \<Rightarrow> f v)"

text \<open>\<open>a / b\<close> on floats (an int operand is converted first): a zero divisor raises.\<close>

definition py_div :: "real \<Rightarrow> real \<Rightarrow> error + real" where
  "py_div a b = (if b = 0 then Inl ZeroDivisionError else Inr (a / b))"

text \<open>\<open>x ** n\<close> for a float \<open>x\<close> and an int \<open>n\<close>; zero to a negative power raises.\<close>

definition py_pow :: "real \<Rightarrow> int \<Rightarrow> error + real" where
  "py_pow x n =
     (if 0 \<le> n then Inr (x ^ nat n)
      else if x = 0 then Inl ZeroDivisionError
      else Inr (1 / x ^ nat (- n)))"

text \<open>
  \<open>round(x, ndigits)\<close> on a float rounds the decimal value of \<open>x\<close> to \<open>ndigits\<close>
  places, a tie going to the even neighbour.
\<close>

definition round_half_even :: "real \<Rightarrow> int" where
  "round_half_even x =
     (let f = \<lfloor>x\<rfloor>; d = x - of_int f
      in if d < 1 / 2 then f
         else if 1 / 2 < d then f + 1
         else if even f then f else f + 1)"

definition py_round :: "real \<Rightarrow> nat \<Rightarrow> real" where
  "py_round x ndigits = of_int (round_half_even (x * 10 ^ ndigits)) / 10 ^ ndigits"

section \<open>config/settings.py\<close>

text \<open>
  The lending parameters are read from the process environment when the module is
  imported. \<open>os.getenv\<close>, \<open>int\<close> and \<open>float\<close> are Python's own: a variable is given
  here as what they make of it, namely unset, a text that the conversion accepts
  (with the number it denotes), or a text that the conversion rejects with
  ValueError. The paths, the directory creation and the LLM settings of the module
  are file-system and service configuration and are left out.
\<close>

datatype 'a env_var = Unset | Parsed 'a | Unparsable

record environ =
  env_MIN_CREDIT_SCORE :: "int env_var"
  env_MAX_DTI_RATIO :: "real env_var"
  env_MIN_INCOME :: "real env_var"
  env_BASE_INTEREST_RATE :: "real env_var"

record settings =
  MIN_CREDIT_SCORE :: int
  MAX_DTI_RATIO :: real
  MIN_INCOME :: real
  BASE_INTEREST_RATE :: real

text \<open>\<open>int(os.getenv(NAME, default))\<close> and \<open>float(os.getenv(NAME, default))\<close>.\<close>

definition getenv_conv :: "'a env_var \<Rightarrow> 'a \<Rightarrow> error + 'a" where
  "getenv_conv v dflt =
     (case v of Unset \<Rightarrow> Inr dflt | Parsed x \<Rightarrow> Inr x | Unparsable \<Rightarrow> Inl ValueError)"

definition load_settings :: "environ \<Rightarrow> error + settings" where
  "load_settings env =
     bind_res (getenv_conv (env_MIN_CREDIT_SCORE env) 620) (\<lambda>mcs.
     bind_res (getenv_conv (env_MAX_DTI_RATIO env) 0.43) (\<lambda>mdr.
     bind_res (getenv_conv (env_MIN_INCOME env) 30000) (\<lambda>mi.
     bind_res (getenv_conv (env_BASE_INTEREST_RATE env) 7.5) (\<lambda>bir.
       Inr \<lparr>MIN_CREDIT_SCORE = mcs, MAX_DTI_RATIO = mdr,
            MIN_INCOME = mi, BASE_INTEREST_RATE = bir\<rparr>))))"

definition empty_environ :: environ where
  "empty_environ =
     \<lparr>env_MIN_CREDIT_SCORE = Unset, env_MAX_DTI_RATIO = Unset,
      env_MIN_INCOME = Unset, env_BASE_INTEREST_RATE = Unset\<rparr>"

text \<open>The settings of a process that sets none of the four variables.\<close>

definition default_settings :: settings where
  "default_settings =
     \<lparr>MIN_CREDIT_SCORE = 620, MAX_DTI_RATIO = 0.43,
      MIN_INCOME = 30000, BASE_INTEREST_RATE = 7.5\<rparr>"

text \<open>
  \<open>RISK_TIERS\<close>: a dictionary from tier name to a dictionary of that tier's entries.
\<close>

definition RISK_TIERS :: "string \<rightharpoonup> (string \<rightharpoonup> real)" where
  "RISK_TIERS = map_of
     [(''EXCELLENT'', map_of [(''min_score'', 750), (''rate_adjustment'', - 1.5)]),
      (''GOOD'', map_of [(''min_score'', 700), (''rate_adjustment'', - 0.5)]),
      (''FAIR'', map_of [(''min_score'', 650), (''rate_adjustment'', 1.0)]),
      (''POOR'', map_of [(''min_score'', 620), (''rate_adjustment'', 2.5)])]"

text \<open>\<open>d.get(k, default)\<close> on a dictionary.\<close>

definition dict_get :: "('k \<rightharpoonup> 'v) \<Rightarrow> 'k \<Rightarrow> 'v \<Rightarrow> 'v" where
  "dict_get d k dflt = (case d k of None \<Rightarrow> dflt | Some v \<Rightarrow> v)"

section \<open>tools/application\_tools.py\<close>

subsection \<open>CreditCheckTool\<close>

definition get_credit_tier :: "int \<Rightarrow> string" where
  "get_credit_tier score =
     (if score \<ge> 750 then ''EXCELLENT''
      else if score \<ge> 700 then ''GOOD''
      else if score \<ge> 650 then ''FAIR''
      else if score \<ge> 620 then ''POOR''
      else ''SUBPRIME'')"

subsection \<open>DTICalculatorTool\<close>

record dti_result =
  monthly_income :: real
  current_monthly_debt :: real
  proposed_payment :: real
  current_dti :: real
  proposed_dti :: real
  max_allowed_dti :: real
  passes_dti_check :: bool
  dti_assessment :: string

definition assess_dti :: "real \<Rightarrow> string" where
  "assess_dti dti =
     (if dti \<le> 0.20 then ''Excellent - very low debt burden''
      else if dti \<le> 0.35 then ''Good - manageable debt level''
      else if dti \<le> 0.43 then ''Acceptable - at upper limit''
      else ''Too high - exceeds maximum threshold'')"

definition DTICalculatorTool_run :: "settings \<Rightarrow> real \<Rightarrow> real \<Rightarrow> real \<Rightarrow> error + dti_result" where
  "DTICalculatorTool_run cfg annual_income monthly_debt_payments proposed_loan_payment =
     bind_res (py_div annual_income 12) (\<lambda>m_income.
     bind_res (if m_income > 0 then py_div monthly_debt_payments m_income else Inr 0) (\<lambda>cur_dti.
     bind_res (if m_income > 0
               then py_div (monthly_debt_payments + proposed_loan_payment) m_income
               else Inr 0) (\<lambda>prop_dti.
       Inr \<lparr>monthly_income = py_round m_income 2,
            current_monthly_debt = monthly_debt_payments,
            proposed_payment = proposed_loan_payment,
            current_dti = py_round (cur_dti * 100) 2,
            proposed_dti = py_round (prop_dti * 100) 2,
            max_allowed_dti = MAX_DTI_RATIO cfg * 100,
            passes_dti_check = (prop_dti \<le> MAX_DTI_RATIO cfg),
            dti_assessment = assess_dti prop_dti\<rparr>)))"

section \<open>tools/underwriting\_tools.py\<close>

subsection \<open>RiskScoringTool\<close>

text \<open>
  The score functions are annotated \<open>float\<close> but return int literals, so the
  component scores, the penalty and the total are Python ints, and
  \<open>round(v, 1)\<close> of an int is that int.
\<close>

record risk_components =
  credit_risk :: int
  dti_risk :: int
  income_risk :: int
  employment_risk :: int
  bankruptcy_penalty :: int

record risk_result =
  total_risk_score :: int
  risk_level :: string
  components :: risk_components
  recommendation :: string
  approval_likelihood :: string

definition score_credit :: "int \<Rightarrow> int" where
  "score_credit score =
     (if score \<ge> 750 then 5
      else if score \<ge> 700 then 10
      else if score \<ge> 650 then 18
      else if score \<ge> 620 then 23
      else 25)"

definition score_dti :: "real \<Rightarrow> int" where
  "score_dti dti =
     (if dti \<le> 0.20 then 5
      else if dti \<le> 0.30 then 10
      else if dti \<le> 0.36 then 15
      else if dti \<le> 0.43 then 20
      else 25)"

definition score_income :: "real \<Rightarrow> real \<Rightarrow> error + int" where
  "score_income income loan_amt =
     bind_res (if income > 0 then py_div loan_amt income else Inr 999) (\<lambda>ratio.
       Inr (if ratio \<le> 0.25 then 5
            else if ratio \<le> 0.50 then 10
            else if ratio \<le> 0.75 then 15
            else if ratio \<le> 1.0 then 20
            else 25))"

definition score_employment :: "real \<Rightarrow> int" where
  "score_employment years =
     (if years \<ge> 5 then 5
      else if years \<ge> 2 then 10
      else if years \<ge> 1 then 18
      else 25)"

definition get_risk_level :: "int \<Rightarrow> string" where
  "get_risk_level score =
     (if score \<le> 25 then ''LOW''
      else if score \<le> 50 then ''MODERATE''
      else if score \<le> 75 then ''HIGH''
      else ''VERY_HIGH'')"

definition get_recommendation :: "settings \<Rightarrow> int \<Rightarrow> int \<Rightarrow> real \<Rightarrow> string" where
  "get_recommendation cfg risk_score credit_score dti =
     (if credit_score < MIN_CREDIT_SCORE cfg then ''DENY - Credit score below minimum''
      else if dti > MAX_DTI_RATIO cfg then ''DENY - DTI exceeds maximum''
      else if risk_score \<le> 35 then ''APPROVE - Strong application''
      else if risk_score \<le> 55 then ''APPROVE WITH CONDITIONS''
      else if risk_score \<le> 75 then ''REFER TO SENIOR UNDERWRITER''
      else ''DENY - High risk'')"

definition get_approval_likelihood :: "int \<Rightarrow> string" where
  "get_approval_likelihood risk_score =
     (if risk_score \<le> 30 then ''Very High (90%+)''
      else if risk_score \<le> 45 then ''High (70-89%)''
      else if risk_score \<le> 60 then ''Moderate (50-69%)''
      else if risk_score \<le> 75 then ''Low (25-49%)''
      else ''Very Low (<25%)'')"

definition RiskScoringTool_run ::
  "settings \<Rightarrow> int \<Rightarrow> real \<Rightarrow> real \<Rightarrow> real \<Rightarrow> int \<Rightarrow> real \<Rightarrow> error + risk_result" where
  "RiskScoringTool_run cfg credit_score dti_ratio annual_income years_employed bankruptcies loan_amt =
     bind_res (score_income annual_income loan_amt) (\<lambda>inc_risk.
       let cr_risk = score_credit credit_score;
           d_risk = score_dti dti_ratio;
           emp_risk = score_employment years_employed;
           penalty = min (bankruptcies * 15) 30;
           total_risk = min (cr_risk + d_risk + inc_risk + emp_risk + penalty) 100
       in Inr \<lparr>total_risk_score = total_risk,
               risk_level = get_risk_level total_risk,
               components =
                 \<lparr>credit_risk = cr_risk, dti_risk = d_risk, income_risk = inc_risk,
                  employment_risk = emp_risk, bankruptcy_penalty = penalty\<rparr>,
               recommendation = get_recommendation cfg total_risk credit_score dti_ratio,
               approval_likelihood = get_approval_likelihood total_risk\<rparr>)"

subsection \<open>LoanPricingTool\<close>

record rate_breakdown =
  base_rate :: real
  credit_adjustment :: real
  risk_adjustment :: real

record loan_offer =
  loan_amount :: real
  term_months :: int
  interest_rate :: real
  apr :: real
  monthly_payment :: real
  total_interest :: real
  total_repayment :: real
  rate_breakdown :: rate_breakdown
  first_payment_interest :: real
  first_payment_principal :: real

text \<open>\<open>RISK_TIERS.get(credit_tier, {}).get("rate_adjustment", 0)\<close>\<close>

definition tier_adjustment :: "string \<Rightarrow> real" where
  "tier_adjustment credit_tier =
     dict_get (dict_get RISK_TIERS credit_tier Map.empty) ''rate_adjustment'' 0"

definition risk_adjustments :: "string \<rightharpoonup> real" where
  "risk_adjustments = map_of
     [(''LOW'', - 0.5), (''MODERATE'', 0.5), (''HIGH'', 1.5), (''VERY_HIGH'', 3.0)]"

text \<open>Lines 181 to 191: the rate before and after the floor.\<close>

definition final_rate :: "settings \<Rightarrow> string \<Rightarrow> string \<Rightarrow> real" where
  "final_rate cfg credit_tier risk_lvl =
     (let b_rate = BASE_INTEREST_RATE cfg;
          t_adj = tier_adjustment credit_tier;
          r_adj = dict_get risk_adjustments risk_lvl 0;
          rate = b_rate + t_adj + r_adj
      in max rate 5.0)"

text \<open>Line 194.\<close>

definition monthly_rate_of :: "real \<Rightarrow> real" where
  "monthly_rate_of rate = rate / 100 / 12"

text \<open>
  The divisor of the amortization formula, \<open>(1 + monthly_rate)**term_months - 1\<close>.
\<close>

definition amortization_denominator :: "real \<Rightarrow> int \<Rightarrow> error + real" where
  "amortization_denominator m_rate term = bind_res (py_pow (1 + m_rate) term) (\<lambda>p. Inr (p - 1))"

text \<open>Lines 195 to 198: the amortized payment, or the straight-line one.\<close>

definition payment_of :: "real \<Rightarrow> real \<Rightarrow> int \<Rightarrow> error + real" where
  "payment_of loan_amt m_rate term =
     (if m_rate > 0 then
        bind_res (py_pow (1 + m_rate) term) (\<lambda>p.
        bind_res (amortization_denominator m_rate term) (\<lambda>den.
          py_div (loan_amt * (m_rate * p)) den))
      else py_div loan_amt (of_int term))"

definition LoanPricingTool_run ::
  "settings \<Rightarrow> real \<Rightarrow> int \<Rightarrow> string \<Rightarrow> string \<Rightarrow> error + loan_offer" where
  "LoanPricingTool_run cfg loan_amt term credit_tier risk_lvl =
     (let rate = final_rate cfg credit_tier risk_lvl;
          m_rate = monthly_rate_of rate
      in bind_res (payment_of loan_amt m_rate term) (\<lambda>payment.
           let repayment = payment * of_int term;
               interest = repayment - loan_amt
           in Inr \<lparr>loan_amount = loan_amt,
                   term_months = term,
                   interest_rate = py_round rate 2,
                   apr = py_round rate 2,
                   monthly_payment = py_round payment 2,
                   total_interest = py_round interest 2,
                   total_repayment = py_round repayment 2,
                   rate_breakdown =
                     \<lparr>base_rate = BASE_INTEREST_RATE cfg,
                      credit_adjustment = tier_adjustment credit_tier,
                      risk_adjustment = dict_get risk_adjustments risk_lvl 0\<rparr>,
                   first_payment_interest = py_round (loan_amt * m_rate) 2,
                   first_payment_principal = py_round (payment - loan_amt * m_rate) 2\<rparr>))"

section \<open>The rate tables in the words of the specification\<close>

text \<open>
  The specification gives the two adjustments as tables with a default: EXCELLENT
  -1.5, GOOD -0.5, FAIR +1.0, POOR +2.5, any other tier 0; LOW -0.5, MODERATE +0.5,
  HIGH +1.5, VERY_HIGH +3.0, any other level 0. The code looks them up in
  dictionaries; the two readings are compared below.
\<close>

definition spec_tier_adjustment :: "string \<Rightarrow> real" where
  "spec_tier_adjustment credit_tier =
     (if credit_tier = ''EXCELLENT'' then - 1.5
      else if credit_tier = ''GOOD'' then - 0.5
      else if credit_tier = ''FAIR'' then 1.0
      else if credit_tier = ''POOR'' then 2.5
      else 0)"

definition spec_risk_adjustment :: "string \<Rightarrow> real" where
  "spec_risk_adjustment risk_lvl =
     (if risk_lvl = ''LOW'' then - 0.5
      else if risk_lvl = ''MODERATE'' then 0.5
      else if risk_lvl = ''HIGH'' then 1.5
      else if risk_lvl = ''VERY_HIGH'' then 3.0
      else 0)"

section \<open>Properties of the risk scorer\<close>

lemma score_credit_range: "5 \<le> score_credit s \<and> score_credit s \<le> 25"
  by (simp add: score_credit_def)

lemma score_dti_range: "5 \<le> score_dti d \<and> score_dti d \<le> 25"
  by (simp add: score_dti_def)

lemma score_employment_range: "5 \<le> score_employment y \<and> score_employment y \<le> 25"
  by (simp add: score_employment_def)

text \<open>The only division of the scorer is guarded, so the income score always exists.\<close>

lemma score_income_total: "\<exists>v. score_income income loan_amt = Inr v \<and> 5 \<le> v \<and> v \<le> 25"
  by (simp add: score_income_def bind_res_def py_div_def)

lemma RiskScoringTool_run_Inr:
  assumes "score_income annual_income loan_amt = Inr v"
    and "t = min (score_credit cs + score_dti dti + v + score_employment ye + min (b * 15) 30) 100"
  shows "RiskScoringTool_run cfg cs dti annual_income ye b loan_amt =
     Inr \<lparr>total_risk_score = t,
          risk_level = get_risk_level t,
          components =
            \<lparr>credit_risk = score_credit cs, dti_risk = score_dti dti, income_risk = v,
             employment_risk = score_employment ye, bankruptcy_penalty = min (b * 15) 30\<rparr>,
          recommendation = get_recommendation cfg t cs dti,
          approval_likelihood = get_approval_likelihood t\<rparr>"
  using assms by (simp add: RiskScoringTool_run_def bind_res_def Let_def)

lemma score_income_extreme: "score_income 1 1000000 = Inr 25"
  by (simp add: score_income_def bind_res_def py_div_def)

text \<open>
  C1. For every input the scorer returns an assessment whose total is the sum of its
  five reported components, capped at 100, and whose bankruptcy penalty is
  \<open>min (bankruptcies * 15) 30\<close>. Three bankruptcies cost 30, and the extreme input
  (credit score 300, DTI 0.9, income 1, no employment, five bankruptcies, loan
  1000000) scores exactly 100.
\<close>

theorem risk_total_is_clamped_sum:
  "(\<exists>r. RiskScoringTool_run cfg cs dti annual_income ye b loan_amt = Inr r
      \<and> total_risk_score r =
          min (credit_risk (components r) + dti_risk (components r)
               + income_risk (components r) + employment_risk (components r)
               + bankruptcy_penalty (components r)) 100
      \<and> bankruptcy_penalty (components r) = min (b * 15) 30)
   \<and> (\<exists>r. RiskScoringTool_run cfg cs dti annual_income ye 3 loan_amt = Inr r
      \<and> bankruptcy_penalty (components r) = 30)
   \<and> (\<exists>r. RiskScoringTool_run cfg 300 0.9 1 0 5 1000000 = Inr r
      \<and> total_risk_score r = 100)"
proof -
  obtain v where v: "score_income annual_income loan_amt = Inr v"
    using score_income_total by blast
  have "\<exists>r. RiskScoringTool_run cfg cs dti annual_income ye b loan_amt = Inr r
      \<and> total_risk_score r =
          min (credit_risk (components r) + dti_risk (components r)
               + income_risk (components r) + employment_risk (components r)
               + bankruptcy_penalty (components r)) 100
      \<and> bankruptcy_penalty (components r) = min (b * 15) 30"
    by (simp add: RiskScoringTool_run_Inr[OF v refl])
  moreover have "\<exists>r. RiskScoringTool_run cfg cs dti annual_income ye 3 loan_amt = Inr r
      \<and> bankruptcy_penalty (components r) = 30"
    by (simp add: RiskScoringTool_run_Inr[OF v refl])
  moreover have "\<exists>r. RiskScoringTool_run cfg 300 0.9 1 0 5 1000000 = Inr r
      \<and> total_risk_score r = 100"
    by (simp add: RiskScoringTool_run_Inr[OF score_income_extreme refl]
        score_credit_def score_dti_def score_employment_def)
  ultimately show ?thesis by blast
qed

text \<open>
  C2. For every input the reported recommendation follows the priority order: a
  credit score below the configured minimum denies, whatever the total; otherwise a
  DTI strictly above the configured maximum denies; otherwise the bands of the
  reported total decide (at most 35, at most 55, at most 75, above). The defaults
  of the two thresholds are 620 and 0.43.
\<close>

theorem recommendation_priority:
  "(\<exists>r. RiskScoringTool_run cfg cs dti annual_income ye b loan_amt = Inr r
      \<and> recommendation r =
          (if cs < MIN_CREDIT_SCORE cfg then ''DENY - Credit score below minimum''
           else if MAX_DTI_RATIO cfg < dti then ''DENY - DTI exceeds maximum''
           else if total_risk_score r \<le> 35 then ''APPROVE - Strong application''
           else if total_risk_score r \<le> 55 then ''APPROVE WITH CONDITIONS''
           else if total_risk_score r \<le> 75 then ''REFER TO SENIOR UNDERWRITER''
           else ''DENY - High risk''))
   \<and> load_settings empty_environ = Inr default_settings
   \<and> MIN_CREDIT_SCORE default_settings = 620
   \<and> MAX_DTI_RATIO default_settings = 0.43"
proof -
  obtain v where v: "score_income annual_income loan_amt = Inr v"
    using score_income_total by blast
  define t where
    "t = min (score_credit cs + score_dti dti + v + score_employment ye + min (b * 15) 30) 100"
  have "\<exists>r. RiskScoringTool_run cfg cs dti annual_income ye b loan_amt = Inr r
      \<and> recommendation r =
          (if cs < MIN_CREDIT_SCORE cfg then ''DENY - Credit score below minimum''
           else if MAX_DTI_RATIO cfg < dti then ''DENY - DTI exceeds maximum''
           else if total_risk_score r \<le> 35 then ''APPROVE - Strong application''
           else if total_risk_score r \<le> 55 then ''APPROVE WITH CONDITIONS''
           else if total_risk_score r \<le> 75 then ''REFER TO SENIOR UNDERWRITER''
           else ''DENY - High risk'')"
    unfolding RiskScoringTool_run_Inr[OF v t_def] by (simp add: get_recommendation_def)
  moreover have "load_settings empty_environ = Inr default_settings"
    by (simp add: load_settings_def empty_environ_def default_settings_def
        getenv_conv_def bind_res_def)
  moreover have "MIN_CREDIT_SCORE default_settings = 620"
    and "MAX_DTI_RATIO default_settings = 0.43"
    by (simp_all add: default_settings_def)
  ultimately show ?thesis by blast
qed

text \<open>
  C9. With a non-negative number of bankruptcies the total is at least 20: each of
  the four sub-scores is at least 5 and the penalty is not negative. So the total
  lies between 20 and 100.
\<close>

theorem risk_total_at_least_20:
  assumes "0 \<le> b"
  shows "\<exists>r. RiskScoringTool_run cfg cs dti annual_income ye b loan_amt = Inr r
      \<and> 5 \<le> credit_risk (components r) \<and> 5 \<le> dti_risk (components r)
      \<and> 5 \<le> income_risk (components r) \<and> 5 \<le> employment_risk (components r)
      \<and> 0 \<le> bankruptcy_penalty (components r)
      \<and> 20 \<le> total_risk_score r \<and> total_risk_score r \<le> 100"
proof -
  obtain v where v: "score_income annual_income loan_amt = Inr v" and v5: "5 \<le> v"
    using score_income_total by blast
  have p: "0 \<le> min (b * 15) 30" using assms by simp
  have c: "5 \<le> score_credit cs" and d: "5 \<le> score_dti dti" and e: "5 \<le> score_employment ye"
    using score_credit_range[of cs] score_dti_range[of dti] score_employment_range[of ye]
    by simp_all
  define s where "s = score_credit cs + score_dti dti + v + score_employment ye + min (b * 15) 30"
  have "20 \<le> s" unfolding s_def using v5 p c d e by linarith
  then have "20 \<le> min s 100" by simp
  then show ?thesis
    using v5 p c d e unfolding s_def
    by (simp add: RiskScoringTool_run_Inr[OF v refl])
qed

text \<open>The bound is met: the best applicant, with no bankruptcy, scores exactly 20.\<close>

theorem risk_total_at_least_20_witness:
  "(0::int) \<le> 0
   \<and> (\<exists>r. RiskScoringTool_run default_settings 800 0.1 100000 10 0 10000 = Inr r
        \<and> 20 \<le> total_risk_score r \<and> total_risk_score r \<le> 100)"
  using risk_total_at_least_20[of 0 default_settings 800 "0.1" 100000 10 10000] by auto

section \<open>Rounding\<close>

lemma round_half_even_unique:
  assumes "of_int k - 1 / 2 < x" and "x < of_int k + 1 / 2"
  shows "round_half_even x = k"
proof -
  have "\<lfloor>x\<rfloor> = k \<or> \<lfloor>x\<rfloor> = k - 1" using assms by linarith
  then show ?thesis
  proof
    assume f: "\<lfloor>x\<rfloor> = k"
    then have "x - of_int \<lfloor>x\<rfloor> < 1 / 2" using assms by simp
    then show ?thesis using f by (simp add: round_half_even_def Let_def)
  next
    assume f: "\<lfloor>x\<rfloor> = k - 1"
    then have "1 / 2 < x - of_int \<lfloor>x\<rfloor>" using assms by simp
    then show ?thesis using f by (simp add: round_half_even_def Let_def)
  qed
qed

lemma round_half_even_close: "\<bar>of_int (round_half_even x) - x\<bar> \<le> 1 / 2"
proof -
  have b: "of_int \<lfloor>x\<rfloor> \<le> x" "x < of_int \<lfloor>x\<rfloor> + 1" by linarith+
  consider "x - of_int \<lfloor>x\<rfloor> < 1 / 2" | "1 / 2 < x - of_int \<lfloor>x\<rfloor>"
    | "x - of_int \<lfloor>x\<rfloor> = 1 / 2" by linarith
  then show ?thesis
  proof cases
    case 1
    then have "round_half_even x = \<lfloor>x\<rfloor>" by (simp add: round_half_even_def Let_def)
    with 1 b show ?thesis by simp
  next
    case 2
    then have "round_half_even x = \<lfloor>x\<rfloor> + 1" by (simp add: round_half_even_def Let_def)
    with 2 b show ?thesis by simp
  next
    case 3
    then have "round_half_even x = \<lfloor>x\<rfloor> \<or> round_half_even x = \<lfloor>x\<rfloor> + 1"
      by (simp add: round_half_even_def Let_def)
    with 3 b show ?thesis by auto
  qed
qed

text \<open>Rounding to two places moves a value by at most half a cent.\<close>

lemma py_round2_close: "\<bar>py_round x 2 - x\<bar> \<le> 1 / 200"
proof -
  define k where "k = round_half_even (x * 100)"
  have r: "py_round x 2 = of_int k / 100" by (simp add: py_round_def k_def)
  have "\<bar>of_int k - x * 100\<bar> \<le> 1 / 2"
    unfolding k_def by (rule round_half_even_close)
  then show ?thesis unfolding r by linarith
qed

lemma abs_triangle_200:
  fixes a b c t :: real
  assumes "\<bar>a - b\<bar> \<le> 1 / 200" and "\<bar>c - b\<bar> \<le> t / 200"
  shows "\<bar>a - c\<bar> \<le> (t + 1) / 200"
proof -
  have "\<bar>a - c\<bar> = \<bar>(a - b) - (c - b)\<bar>" by simp
  also have "\<dots> \<le> \<bar>a - b\<bar> + \<bar>c - b\<bar>" by (rule abs_triangle_ineq4)
  also have "\<dots> \<le> 1 / 200 + t / 200" using assms by (rule add_mono)
  finally show ?thesis by (simp add: add_divide_distrib)
qed

lemma py_round2_eqI:
  assumes "of_int k - 1 / 2 < x * 100" and "x * 100 < of_int k + 1 / 2"
  shows "py_round x 2 = of_int k / 100"
  using round_half_even_unique[OF assms] by (simp add: py_round_def)

lemma py_round_zero: "py_round 0 n = 0"
  by (simp add: py_round_def round_half_even_def)

section \<open>Properties of the settings\<close>

lemma load_settings_empty: "load_settings empty_environ = Inr default_settings"
  by (simp add: load_settings_def empty_environ_def default_settings_def
      getenv_conv_def bind_res_def)

section \<open>Properties of the loan pricer\<close>

lemma tier_adjustment_spec: "tier_adjustment credit_tier = spec_tier_adjustment credit_tier"
  by (simp add: tier_adjustment_def spec_tier_adjustment_def dict_get_def RISK_TIERS_def)

lemma risk_adjustment_spec:
  "dict_get risk_adjustments risk_lvl 0 = spec_risk_adjustment risk_lvl"
  by (simp add: spec_risk_adjustment_def dict_get_def risk_adjustments_def)

lemma final_rate_ge_floor: "5 \<le> final_rate cfg credit_tier risk_lvl"
  by (simp add: final_rate_def Let_def)

lemma monthly_rate_positive: "0 < monthly_rate_of (final_rate cfg credit_tier risk_lvl)"
  using final_rate_ge_floor[of cfg credit_tier risk_lvl] by (simp add: monthly_rate_of_def)

text \<open>
  The divisor of the amortization formula: for a rate above -1 and a term other than
  0 it vanishes exactly when the rate is 0.
\<close>

lemma power_eq_one_base:
  fixes x :: real
  assumes "0 < x" and "0 < k"
  shows "x ^ k = 1 \<longleftrightarrow> x = 1"
  using power_eq_iff_eq_base[of k x 1] assms by simp

lemma amortization_denominator_zero_iff:
  assumes "term \<noteq> 0" and "- 1 < m_rate"
  shows "amortization_denominator m_rate term = Inr 0 \<longleftrightarrow> m_rate = 0"
proof (cases "0 \<le> term")
  case True
  then have k: "0 < nat term" using assms by simp
  have "(1 + m_rate) ^ nat term = 1 \<longleftrightarrow> 1 + m_rate = 1"
    using assms k by (intro power_eq_one_base) simp_all
  then show ?thesis
    using True by (simp add: amortization_denominator_def py_pow_def bind_res_def)
next
  case False
  then have k: "0 < nat (- term)" by simp
  have x: "1 + m_rate \<noteq> 0" using assms by simp
  have "(1 + m_rate) ^ nat (- term) = 1 \<longleftrightarrow> 1 + m_rate = 1"
    using assms k by (intro power_eq_one_base) simp_all
  then show ?thesis
    using False x by (simp add: amortization_denominator_def py_pow_def bind_res_def)
qed

lemma amortization_denominator_total:
  assumes "- 1 < m_rate"
  shows "\<exists>d. amortization_denominator m_rate term = Inr d"
  using assms by (simp add: amortization_denominator_def py_pow_def bind_res_def)

lemma payment_of_amortized:
  assumes "0 < m_rate" and "term \<noteq> 0"
  shows "\<exists>p d. py_pow (1 + m_rate) term = Inr p
           \<and> amortization_denominator m_rate term = Inr d \<and> d \<noteq> 0
           \<and> payment_of loan_amt m_rate term = Inr (loan_amt * (m_rate * p) / d)"
proof -
  have r: "- 1 < m_rate" using assms by simp
  obtain d where d: "amortization_denominator m_rate term = Inr d"
    using amortization_denominator_total[OF r] by blast
  have "d \<noteq> 0"
    using amortization_denominator_zero_iff[OF assms(2) r] d assms(1) by auto
  moreover have "1 + m_rate \<noteq> 0" using assms by simp
  then have "\<exists>p. py_pow (1 + m_rate) term = Inr p"
    by (simp add: py_pow_def)
  then obtain p where p: "py_pow (1 + m_rate) term = Inr p" by blast
  ultimately show ?thesis
    using assms d by (simp add: payment_of_def bind_res_def py_div_def)
qed

lemma payment_of_straight_line:
  assumes "m_rate \<le> 0" and "term \<noteq> 0"
  shows "payment_of loan_amt m_rate term = Inr (loan_amt / of_int term)"
  using assms by (simp add: payment_of_def py_div_def)

lemma payment_of_zero_term: "payment_of loan_amt m_rate 0 = Inl ZeroDivisionError"
  by (simp add: payment_of_def py_div_def py_pow_def amortization_denominator_def bind_res_def)

lemma LoanPricingTool_run_Inr:
  assumes "payment_of loan_amt (monthly_rate_of (final_rate cfg credit_tier risk_lvl)) term = Inr p"
  shows "LoanPricingTool_run cfg loan_amt term credit_tier risk_lvl =
     Inr \<lparr>loan_amount = loan_amt, term_months = term,
          interest_rate = py_round (final_rate cfg credit_tier risk_lvl) 2,
          apr = py_round (final_rate cfg credit_tier risk_lvl) 2,
          monthly_payment = py_round p 2,
          total_interest = py_round (p * of_int term - loan_amt) 2,
          total_repayment = py_round (p * of_int term) 2,
          rate_breakdown =
            \<lparr>base_rate = BASE_INTEREST_RATE cfg,
             credit_adjustment = tier_adjustment credit_tier,
             risk_adjustment = dict_get risk_adjustments risk_lvl 0\<rparr>,
          first_payment_interest =
            py_round (loan_amt * monthly_rate_of (final_rate cfg credit_tier risk_lvl)) 2,
          first_payment_principal =
            py_round (p - loan_amt * monthly_rate_of (final_rate cfg credit_tier risk_lvl)) 2\<rparr>"
  using assms by (simp add: LoanPricingTool_run_def Let_def bind_res_def)

lemma LoanPricingTool_run_payment:
  assumes "LoanPricingTool_run cfg loan_amt term credit_tier risk_lvl = Inr offer"
  shows "\<exists>p. payment_of loan_amt (monthly_rate_of (final_rate cfg credit_tier risk_lvl)) term = Inr p"
  using assms
  by (cases "payment_of loan_amt (monthly_rate_of (final_rate cfg credit_tier risk_lvl)) term")
     (simp_all add: LoanPricingTool_run_def Let_def bind_res_def)

lemma LoanPricingTool_run_total:
  assumes "term \<noteq> 0"
  shows "\<exists>offer. LoanPricingTool_run cfg loan_amt term credit_tier risk_lvl = Inr offer"
proof -
  obtain p where
    "payment_of loan_amt (monthly_rate_of (final_rate cfg credit_tier risk_lvl)) term = Inr p"
    using payment_of_amortized[OF monthly_rate_positive assms] by blast
  then show ?thesis by (simp add: LoanPricingTool_run_Inr)
qed

lemma LoanPricingTool_run_zero_term:
  "LoanPricingTool_run cfg loan_amt 0 credit_tier risk_lvl = Inl ZeroDivisionError"
  by (simp add: LoanPricingTool_run_def Let_def bind_res_def payment_of_zero_term)

text \<open>
  C8. For every tier and level string and every configured base rate, the final
  rate is the larger of 5.0 and base rate plus the two adjustments of the
  specification's tables: a sum below 5.0 becomes exactly 5.0, and a string outside
  a table adds 0. Every offer reports that rate, rounded, and the three summands.
\<close>

theorem final_rate_floor:
  "final_rate cfg credit_tier risk_lvl =
     max (BASE_INTEREST_RATE cfg + spec_tier_adjustment credit_tier
          + spec_risk_adjustment risk_lvl) 5.0
   \<and> (BASE_INTEREST_RATE cfg + spec_tier_adjustment credit_tier
          + spec_risk_adjustment risk_lvl < 5.0
        \<longrightarrow> final_rate cfg credit_tier risk_lvl = 5.0)
   \<and> (credit_tier \<notin> {''EXCELLENT'', ''GOOD'', ''FAIR'', ''POOR''}
        \<longrightarrow> tier_adjustment credit_tier = 0)
   \<and> (risk_lvl \<notin> {''LOW'', ''MODERATE'', ''HIGH'', ''VERY_HIGH''}
        \<longrightarrow> dict_get risk_adjustments risk_lvl 0 = 0)
   \<and> (LoanPricingTool_run cfg loan_amt term credit_tier risk_lvl = Inr offer
        \<longrightarrow> interest_rate offer =
              py_round (max (BASE_INTEREST_RATE cfg + spec_tier_adjustment credit_tier
                             + spec_risk_adjustment risk_lvl) 5.0) 2
            \<and> base_rate (rate_breakdown offer) = BASE_INTEREST_RATE cfg
            \<and> credit_adjustment (rate_breakdown offer) = spec_tier_adjustment credit_tier
            \<and> risk_adjustment (rate_breakdown offer) = spec_risk_adjustment risk_lvl)"
proof -
  have f: "final_rate cfg credit_tier risk_lvl =
     max (BASE_INTEREST_RATE cfg + spec_tier_adjustment credit_tier
          + spec_risk_adjustment risk_lvl) 5.0"
    by (simp add: final_rate_def Let_def tier_adjustment_spec risk_adjustment_spec)
  have lo: "BASE_INTEREST_RATE cfg + spec_tier_adjustment credit_tier
          + spec_risk_adjustment risk_lvl < 5.0
        \<longrightarrow> final_rate cfg credit_tier risk_lvl = 5.0"
    unfolding f by simp
  have t: "credit_tier \<notin> {''EXCELLENT'', ''GOOD'', ''FAIR'', ''POOR''}
        \<longrightarrow> tier_adjustment credit_tier = 0"
    by (simp add: tier_adjustment_spec spec_tier_adjustment_def)
  have k: "risk_lvl \<notin> {''LOW'', ''MODERATE'', ''HIGH'', ''VERY_HIGH''}
        \<longrightarrow> dict_get risk_adjustments risk_lvl 0 = 0"
    by (simp add: risk_adjustment_spec spec_risk_adjustment_def)
  have r: "LoanPricingTool_run cfg loan_amt term credit_tier risk_lvl = Inr offer
        \<longrightarrow> interest_rate offer =
              py_round (max (BASE_INTEREST_RATE cfg + spec_tier_adjustment credit_tier
                             + spec_risk_adjustment risk_lvl) 5.0) 2
            \<and> base_rate (rate_breakdown offer) = BASE_INTEREST_RATE cfg
            \<and> credit_adjustment (rate_breakdown offer) = spec_tier_adjustment credit_tier
            \<and> risk_adjustment (rate_breakdown offer) = spec_risk_adjustment risk_lvl"
  proof
    assume a: "LoanPricingTool_run cfg loan_amt term credit_tier risk_lvl = Inr offer"
    then obtain p where
      "payment_of loan_amt (monthly_rate_of (final_rate cfg credit_tier risk_lvl)) term = Inr p"
      using LoanPricingTool_run_payment by blast
    from LoanPricingTool_run_Inr[OF this] a
    show "interest_rate offer =
              py_round (max (BASE_INTEREST_RATE cfg + spec_tier_adjustment credit_tier
                             + spec_risk_adjustment risk_lvl) 5.0) 2
            \<and> base_rate (rate_breakdown offer) = BASE_INTEREST_RATE cfg
            \<and> credit_adjustment (rate_breakdown offer) = spec_tier_adjustment credit_tier
            \<and> risk_adjustment (rate_breakdown offer) = spec_risk_adjustment risk_lvl"
      using f by (auto simp add: tier_adjustment_spec risk_adjustment_spec)
  qed
  from f lo t k r show ?thesis by blast
qed

text \<open>
  A base rate of 3 with a tier and a level that are in neither table: the sum is 3,
  the rate is 5, and the offer for 10000 over 12 months reports 5.
\<close>

theorem final_rate_floor_witness:
  "final_rate (default_settings\<lparr>BASE_INTEREST_RATE := 3\<rparr>) ''SUBPRIME'' ''NONE'' = 5
   \<and> tier_adjustment ''SUBPRIME'' = 0
   \<and> dict_get risk_adjustments ''NONE'' 0 = 0
   \<and> (\<exists>offer. LoanPricingTool_run (default_settings\<lparr>BASE_INTEREST_RATE := 3\<rparr>)
                    10000 12 ''SUBPRIME'' ''NONE'' = Inr offer
         \<and> interest_rate offer = 5)"
proof -
  obtain offer where
    a: "LoanPricingTool_run (default_settings\<lparr>BASE_INTEREST_RATE := 3\<rparr>)
          10000 12 ''SUBPRIME'' ''NONE'' = Inr offer"
    using LoanPricingTool_run_total[of 12] by fastforce
  have r5: "py_round 5 2 = 5"
    using py_round2_eqI[of 500 5] by simp
  show ?thesis
    using final_rate_floor[of "default_settings\<lparr>BASE_INTEREST_RATE := 3\<rparr>"
        "''SUBPRIME''" "''NONE''" 10000 12 offer] a r5
    by (simp add: spec_tier_adjustment_def spec_risk_adjustment_def default_settings_def)
qed

text \<open>
  C10. The tier SUBPRIME, which the credit evaluator gives to every score below 620,
  is not a key of the pricing table, so its adjustment is 0 where POOR adds 2.5.
  Hence, for every level and every base rate, the SUBPRIME rate is at most the POOR
  rate, and strictly below it whenever the POOR rate is above the floor of 5.0.
  The rate depends on neither the loan amount nor the term.
\<close>

theorem subprime_priced_below_poor:
  "(score < 620 \<longrightarrow> get_credit_tier score = ''SUBPRIME'')
   \<and> RISK_TIERS ''SUBPRIME'' = None
   \<and> tier_adjustment ''SUBPRIME'' = 0
   \<and> tier_adjustment ''POOR'' = 2.5
   \<and> final_rate cfg ''SUBPRIME'' risk_lvl \<le> final_rate cfg ''POOR'' risk_lvl
   \<and> (5.0 < final_rate cfg ''POOR'' risk_lvl
        \<longrightarrow> final_rate cfg ''SUBPRIME'' risk_lvl < final_rate cfg ''POOR'' risk_lvl)"
proof -
  have s: "tier_adjustment ''SUBPRIME'' = 0" and p: "tier_adjustment ''POOR'' = 2.5"
    by (simp_all add: tier_adjustment_def dict_get_def RISK_TIERS_def)
  have "score < 620 \<longrightarrow> get_credit_tier score = ''SUBPRIME''"
    by (simp add: get_credit_tier_def)
  moreover have "RISK_TIERS ''SUBPRIME'' = None"
    by (simp add: RISK_TIERS_def)
  moreover have "final_rate cfg ''SUBPRIME'' risk_lvl \<le> final_rate cfg ''POOR'' risk_lvl"
    by (simp add: final_rate_def Let_def s p)
  moreover have "5.0 < final_rate cfg ''POOR'' risk_lvl
        \<longrightarrow> final_rate cfg ''SUBPRIME'' risk_lvl < final_rate cfg ''POOR'' risk_lvl"
    unfolding final_rate_def Let_def s p by (auto simp add: max_def)
  ultimately show ?thesis using s p by blast
qed

text \<open>
  Under the default settings and level LOW, a score of 600 is SUBPRIME and is priced
  at 7.0, below the 9.5 of POOR.
\<close>

theorem subprime_priced_below_poor_witness:
  "(600::int) < 620 \<and> get_credit_tier 600 = ''SUBPRIME''
   \<and> 5.0 < final_rate default_settings ''POOR'' ''LOW''
   \<and> final_rate default_settings ''SUBPRIME'' ''LOW'' < final_rate default_settings ''POOR'' ''LOW''
   \<and> final_rate default_settings ''SUBPRIME'' ''LOW'' = 7.0
   \<and> final_rate default_settings ''POOR'' ''LOW'' = 9.5"
proof -
  have a: "final_rate default_settings ''POOR'' ''LOW'' = 9.5"
    by (simp add: final_rate_def Let_def tier_adjustment_spec risk_adjustment_spec
        spec_tier_adjustment_def spec_risk_adjustment_def default_settings_def)
  have b: "final_rate default_settings ''SUBPRIME'' ''LOW'' = 7.0"
    by (simp add: final_rate_def Let_def tier_adjustment_spec risk_adjustment_spec
        spec_tier_adjustment_def spec_risk_adjustment_def default_settings_def)
  show ?thesis
    using subprime_priced_below_poor[of 600 default_settings "''LOW''"] a b by simp
qed

text \<open>
  With a term of 0 months the divisor of the amortization formula is 0 although the
  monthly rate is not, and the pricer raises ZeroDivisionError.
\<close>

theorem amortization_zero_term_counterexample:
  "monthly_rate_of (final_rate default_settings ''GOOD'' ''LOW'') \<noteq> 0
   \<and> amortization_denominator (monthly_rate_of (final_rate default_settings ''GOOD'' ''LOW'')) 0
       = Inr 0
   \<and> LoanPricingTool_run default_settings 10000 0 ''GOOD'' ''LOW'' = Inl ZeroDivisionError"
proof -
  have "0 < monthly_rate_of (final_rate default_settings ''GOOD'' ''LOW'')"
    by (rule monthly_rate_positive)
  then have "monthly_rate_of (final_rate default_settings ''GOOD'' ''LOW'') \<noteq> 0"
    by simp
  moreover have
    "amortization_denominator (monthly_rate_of (final_rate default_settings ''GOOD'' ''LOW'')) 0
       = Inr 0"
    by (simp add: amortization_denominator_def py_pow_def bind_res_def)
  ultimately show ?thesis
    by (simp add: LoanPricingTool_run_zero_term)
qed

text \<open>
  C3, amended. For every loan amount, tier, level and base rate and every term other
  than 0: the divisor \<open>(1 + monthly_rate)^term - 1\<close> is 0 only when the monthly rate
  is 0 (for any rate above -1); a monthly rate that is not positive is special-cased
  to the straight-line payment \<open>loan_amount / term\<close>; the monthly rate of the pricer
  is positive, its divisor is not 0, and the pricer returns an offer, so no division
  divides by zero.
\<close>

theorem no_zero_division_for_nonzero_term:
  assumes "term \<noteq> 0"
  shows "(- 1 < m_rate \<longrightarrow>
            (amortization_denominator m_rate term = Inr 0 \<longleftrightarrow> m_rate = 0))
       \<and> (m_rate \<le> 0 \<longrightarrow> payment_of loan_amt m_rate term = Inr (loan_amt / of_int term))
       \<and> 0 < monthly_rate_of (final_rate cfg credit_tier risk_lvl)
       \<and> (\<exists>d. amortization_denominator
                  (monthly_rate_of (final_rate cfg credit_tier risk_lvl)) term = Inr d
              \<and> d \<noteq> 0)
       \<and> (\<exists>offer. LoanPricingTool_run cfg loan_amt term credit_tier risk_lvl = Inr offer)"
proof -
  have "- 1 < m_rate \<longrightarrow>
          (amortization_denominator m_rate term = Inr 0 \<longleftrightarrow> m_rate = 0)"
    using amortization_denominator_zero_iff[OF assms] by blast
  moreover have
    "m_rate \<le> 0 \<longrightarrow> payment_of loan_amt m_rate term = Inr (loan_amt / of_int term)"
    using payment_of_straight_line[OF _ assms] by blast
  moreover have "\<exists>d. amortization_denominator
                  (monthly_rate_of (final_rate cfg credit_tier risk_lvl)) term = Inr d
              \<and> d \<noteq> 0"
    using payment_of_amortized[OF monthly_rate_positive assms] by blast
  ultimately show ?thesis
    using monthly_rate_positive LoanPricingTool_run_total[OF assms] by blast
qed

text \<open>A term of 36 months under the default settings.\<close>

theorem no_zero_division_for_nonzero_term_witness:
  "(36::int) \<noteq> 0
   \<and> (- 1::real) < 0
   \<and> amortization_denominator 0 36 = Inr 0
   \<and> payment_of 7200 0 36 = Inr 200
   \<and> (\<exists>d. amortization_denominator
              (monthly_rate_of (final_rate default_settings ''GOOD'' ''LOW'')) 36 = Inr d
          \<and> d \<noteq> 0)
   \<and> (\<exists>offer. LoanPricingTool_run default_settings 7200 36 ''GOOD'' ''LOW'' = Inr offer)"
  using no_zero_division_for_nonzero_term[of 36 0 7200 default_settings "''GOOD''" "''LOW''"]
  by simp

subsection \<open>A worked offer: 10000 over 36 months, tier GOOD, level LOW\<close>

lemma final_rate_example: "final_rate default_settings ''GOOD'' ''LOW'' = 6.5"
  by (simp add: final_rate_def default_settings_def tier_adjustment_def dict_get_def
      RISK_TIERS_def risk_adjustments_def)

lemma pow_example: "py_pow (1 + 13 / 2400) 36 = Inr ((2413 / 2400) ^ 36)"
  by (simp add: py_pow_def)

lemma payment_example:
  "payment_of 10000 (13 / 2400) 36 =
     Inr (10000 * (13 / 2400 * (2413 / 2400) ^ 36) / ((2413 / 2400) ^ 36 - 1))"
proof -
  have "(1::real) < (2413 / 2400) ^ 36" by (rule one_less_power) simp_all
  then have "(2413 / 2400) ^ 36 - 1 \<noteq> (0::real)" by linarith
  then show ?thesis
    unfolding payment_of_def amortization_denominator_def pow_example bind_res_def py_div_def
    by simp
qed

text \<open>The exact payment lies between 306.49 and 306.4901.\<close>

lemma payment_bounds:
  "306.49 < (10000 * (13 / 2400 * (2413 / 2400) ^ 36) / ((2413 / 2400) ^ 36 - 1) :: real)"
  "(10000 * (13 / 2400 * (2413 / 2400) ^ 36) / ((2413 / 2400) ^ 36 - 1) :: real) < 306.4901"
  by (simp_all add: power_divide)

lemma pricing_example:
  "LoanPricingTool_run default_settings 10000 36 ''GOOD'' ''LOW'' =
     Inr \<lparr>loan_amount = 10000, term_months = 36, interest_rate = 6.5, apr = 6.5,
          monthly_payment = 306.49, total_interest = 1033.64, total_repayment = 11033.64,
          rate_breakdown =
            \<lparr>base_rate = 7.5, credit_adjustment = - 0.5, risk_adjustment = - 0.5\<rparr>,
          first_payment_interest = 54.17, first_payment_principal = 252.32\<rparr>"
proof -
  define p :: real
    where "p = 10000 * (13 / 2400 * (2413 / 2400) ^ 36) / ((2413 / 2400) ^ 36 - 1)"
  have lo: "306.49 < p" and hi: "p < 306.4901"
    unfolding p_def by (rule payment_bounds)+
  have m: "monthly_rate_of 6.5 = 13 / 2400"
    by (simp add: monthly_rate_of_def)
  have pay: "payment_of 10000
      (monthly_rate_of (final_rate default_settings ''GOOD'' ''LOW'')) 36 = Inr p"
    unfolding p_def final_rate_example m by (rule payment_example)
  have r1: "py_round p 2 = 306.49"
    using py_round2_eqI[of 30649 p] lo hi by simp
  have r2: "py_round (p * of_int 36) 2 = 11033.64"
    using py_round2_eqI[of 1103364 "p * 36"] lo hi by simp
  have r3: "py_round (p * of_int 36 - 10000) 2 = 1033.64"
    using py_round2_eqI[of 103364 "p * 36 - 10000"] lo hi by simp
  have r4: "py_round (p - 10000 * (13 / 2400)) 2 = 252.32"
    using py_round2_eqI[of 25232 "p - 10000 * (13 / 2400)"] lo hi by simp
  have r5: "py_round (10000 * (13 / 2400)) 2 = 54.17"
    using py_round2_eqI[of 5417 "10000 * (13 / 2400)"] by simp
  have r6: "py_round 6.5 2 = 6.5"
    using py_round2_eqI[of 650 "6.5"] by simp
  have t: "tier_adjustment ''GOOD'' = - 0.5"
    by (simp add: tier_adjustment_def dict_get_def RISK_TIERS_def)
  have k: "dict_get risk_adjustments ''LOW'' 0 = - 0.5"
    by (simp add: dict_get_def risk_adjustments_def)
  have b: "BASE_INTEREST_RATE default_settings = 7.5"
    by (simp add: default_settings_def)
  show ?thesis
    unfolding LoanPricingTool_run_Inr[OF pay] final_rate_example m
      r1 r2 r3 r4 r5 r6 t k b ..
qed

text \<open>
  C4. Every offer reports the two-place roundings of quantities that satisfy the
  identities exactly: a payment, the repayment \<open>payment * term\<close>, the interest
  \<open>repayment - loan_amount\<close>, and a first-payment interest and principal that add
  up to the payment. Hence the reported fields satisfy the identities up to the
  rounding of each field: within \<open>(|term| + 1) / 200\<close> for the repayment, within
  0.01 for the interest and within 0.015 for the first payment.
\<close>

theorem offer_identities_up_to_rounding:
  assumes "LoanPricingTool_run cfg loan_amt term credit_tier risk_lvl = Inr offer"
  shows "(\<exists>payment repayment interest fp_interest fp_principal.
            repayment = payment * of_int term
          \<and> interest = repayment - loan_amt
          \<and> fp_interest + fp_principal = payment
          \<and> monthly_payment offer = py_round payment 2
          \<and> total_repayment offer = py_round repayment 2
          \<and> total_interest offer = py_round interest 2
          \<and> first_payment_interest offer = py_round fp_interest 2
          \<and> first_payment_principal offer = py_round fp_principal 2)
       \<and> loan_amount offer = loan_amt \<and> term_months offer = term
       \<and> \<bar>total_repayment offer - monthly_payment offer * of_int (term_months offer)\<bar>
            \<le> (\<bar>of_int (term_months offer)\<bar> + 1) / 200
       \<and> \<bar>total_interest offer - (total_repayment offer - loan_amount offer)\<bar> \<le> 1 / 100
       \<and> \<bar>first_payment_interest offer + first_payment_principal offer
            - monthly_payment offer\<bar> \<le> 3 / 200"
proof -
  define m where "m = monthly_rate_of (final_rate cfg credit_tier risk_lvl)"
  obtain p where p: "payment_of loan_amt m term = Inr p"
    using LoanPricingTool_run_payment[OF assms] unfolding m_def by blast
  have o: "offer =
     \<lparr>loan_amount = loan_amt, term_months = term,
          interest_rate = py_round (final_rate cfg credit_tier risk_lvl) 2,
          apr = py_round (final_rate cfg credit_tier risk_lvl) 2,
          monthly_payment = py_round p 2,
          total_interest = py_round (p * of_int term - loan_amt) 2,
          total_repayment = py_round (p * of_int term) 2,
          rate_breakdown =
            \<lparr>base_rate = BASE_INTEREST_RATE cfg,
             credit_adjustment = tier_adjustment credit_tier,
             risk_adjustment = dict_get risk_adjustments risk_lvl 0\<rparr>,
          first_payment_interest = py_round (loan_amt * m) 2,
          first_payment_principal = py_round (p - loan_amt * m) 2\<rparr>"
    using LoanPricingTool_run_Inr[OF p[unfolded m_def]] assms unfolding m_def by simp
  have f1: "monthly_payment offer = py_round p 2"
    and f2: "total_repayment offer = py_round (p * of_int term) 2"
    and f3: "total_interest offer = py_round (p * of_int term - loan_amt) 2"
    and f4: "first_payment_interest offer = py_round (loan_amt * m) 2"
    and f5: "first_payment_principal offer = py_round (p - loan_amt * m) 2"
    and f6: "loan_amount offer = loan_amt" and f7: "term_months offer = term"
    unfolding o by simp_all
  have ex: "\<exists>payment repayment interest fp_interest fp_principal.
            repayment = payment * of_int term
          \<and> interest = repayment - loan_amt
          \<and> fp_interest + fp_principal = payment
          \<and> monthly_payment offer = py_round payment 2
          \<and> total_repayment offer = py_round repayment 2
          \<and> total_interest offer = py_round interest 2
          \<and> first_payment_interest offer = py_round fp_interest 2
          \<and> first_payment_principal offer = py_round fp_principal 2"
  proof (intro exI conjI)
    show "p * of_int term = p * of_int term" ..
    show "p * of_int term - loan_amt = p * of_int term - loan_amt" ..
    show "loan_amt * m + (p - loan_amt * m) = p" by simp
  qed (rule f1 f2 f3 f4 f5)+
  have c1: "\<bar>py_round p 2 - p\<bar> \<le> 1 / 200"
    and c2: "\<bar>py_round (p * of_int term) 2 - p * of_int term\<bar> \<le> 1 / 200"
    and c3: "\<bar>py_round (p * of_int term - loan_amt) 2 - (p * of_int term - loan_amt)\<bar> \<le> 1 / 200"
    and c4: "\<bar>py_round (loan_amt * m) 2 - loan_amt * m\<bar> \<le> 1 / 200"
    and c5: "\<bar>py_round (p - loan_amt * m) 2 - (p - loan_amt * m)\<bar> \<le> 1 / 200"
    by (rule py_round2_close)+
  have "\<bar>(py_round p 2 - p) * of_int term\<bar> = \<bar>py_round p 2 - p\<bar> * \<bar>of_int term\<bar>"
    by (rule abs_mult)
  also have "\<dots> \<le> 1 / 200 * \<bar>of_int term\<bar>"
    using c1 by (rule mult_right_mono) simp
  finally have c6: "\<bar>py_round p 2 * of_int term - p * of_int term\<bar> \<le> \<bar>of_int term\<bar> / 200"
    by (simp add: left_diff_distrib)
  have b1: "\<bar>total_repayment offer - monthly_payment offer * of_int (term_months offer)\<bar>
            \<le> (\<bar>of_int (term_months offer)\<bar> + 1) / 200"
    unfolding f1 f2 f7 using c2 c6 by (rule abs_triangle_200)
  have b2: "\<bar>total_interest offer - (total_repayment offer - loan_amount offer)\<bar> \<le> 1 / 100"
    unfolding f2 f3 f6 using c2 c3 by linarith
  have b3: "\<bar>first_payment_interest offer + first_payment_principal offer
            - monthly_payment offer\<bar> \<le> 3 / 200"
    unfolding f1 f4 f5 using c1 c4 c5 by linarith
  from ex f6 f7 b1 b2 b3 show ?thesis by blast
qed

text \<open>In the worked offer the reported fields satisfy the three identities exactly.\<close>

theorem offer_identities_up_to_rounding_witness:
  "\<exists>offer. LoanPricingTool_run default_settings 10000 36 ''GOOD'' ''LOW'' = Inr offer
     \<and> \<bar>total_repayment offer - monthly_payment offer * of_int (term_months offer)\<bar>
            \<le> (\<bar>of_int (term_months offer)\<bar> + 1) / 200
     \<and> \<bar>total_interest offer - (total_repayment offer - loan_amount offer)\<bar> \<le> 1 / 100
     \<and> \<bar>first_payment_interest offer + first_payment_principal offer
            - monthly_payment offer\<bar> \<le> 3 / 200"
  using offer_identities_up_to_rounding[OF pricing_example] pricing_example by blast

text \<open>
  The worked offer reports a payment of 306.49, a repayment of 11033.64 and an
  interest of 1033.64: none is within a cent of 306.96, 11050.56 and 1050.56.
\<close>

theorem pricing_example_counterexample:
  "LoanPricingTool_run default_settings 10000 36 ''GOOD'' ''LOW'' =
     Inr \<lparr>loan_amount = 10000, term_months = 36, interest_rate = 6.5, apr = 6.5,
          monthly_payment = 306.49, total_interest = 1033.64, total_repayment = 11033.64,
          rate_breakdown =
            \<lparr>base_rate = 7.5, credit_adjustment = - 0.5, risk_adjustment = - 0.5\<rparr>,
          first_payment_interest = 54.17, first_payment_principal = 252.32\<rparr>
   \<and> \<not> \<bar>monthly_payment
         (projr (LoanPricingTool_run default_settings 10000 36 ''GOOD'' ''LOW'')) - 306.96\<bar>
       \<le> 0.01
   \<and> \<not> \<bar>total_repayment
         (projr (LoanPricingTool_run default_settings 10000 36 ''GOOD'' ''LOW'')) - 11050.56\<bar>
       \<le> 0.01
   \<and> \<not> \<bar>total_interest
         (projr (LoanPricingTool_run default_settings 10000 36 ''GOOD'' ''LOW'')) - 1050.56\<bar>
       \<le> 0.01"
  unfolding pricing_example by simp

text \<open>
  C5, amended. With the default base rate 7.5, the pricer on 10000 over 36 months,
  tier GOOD, level LOW has final rate 7.5 - 0.5 - 0.5 = 6.5 and monthly rate
  13/2400, which is 0.0054167 to seven places; it reports a monthly payment of
  306.49, a total repayment of 11033.64 and a total interest of 1033.64.
\<close>

theorem pricing_example_values:
  "BASE_INTEREST_RATE default_settings = 7.5
   \<and> final_rate default_settings ''GOOD'' ''LOW'' = 7.5 - 0.5 - 0.5
   \<and> final_rate default_settings ''GOOD'' ''LOW'' = 6.5
   \<and> monthly_rate_of (final_rate default_settings ''GOOD'' ''LOW'') = 13 / 2400
   \<and> \<bar>monthly_rate_of (final_rate default_settings ''GOOD'' ''LOW'') - 0.0054167\<bar>
       < 0.00000005
   \<and> LoanPricingTool_run default_settings 10000 36 ''GOOD'' ''LOW'' =
       Inr \<lparr>loan_amount = 10000, term_months = 36, interest_rate = 6.5, apr = 6.5,
            monthly_payment = 306.49, total_interest = 1033.64, total_repayment = 11033.64,
            rate_breakdown =
              \<lparr>base_rate = 7.5, credit_adjustment = - 0.5, risk_adjustment = - 0.5\<rparr>,
            first_payment_interest = 54.17, first_payment_principal = 252.32\<rparr>"
proof -
  have m: "monthly_rate_of (final_rate default_settings ''GOOD'' ''LOW'') = 13 / 2400"
    by (simp add: final_rate_example monthly_rate_of_def)
  have "\<bar>monthly_rate_of (final_rate default_settings ''GOOD'' ''LOW'') - 0.0054167\<bar>
       < 0.00000005"
    unfolding m by simp
  moreover have "BASE_INTEREST_RATE default_settings = 7.5"
    by (simp add: default_settings_def)
  ultimately show ?thesis
    using m pricing_example by (simp add: final_rate_example)
qed

section \<open>Properties of the DTI calculator\<close>

lemma DTICalculatorTool_run_nonpositive:
  assumes "annual_income / 12 \<le> 0"
  shows "DTICalculatorTool_run cfg annual_income debts new_payment =
     Inr \<lparr>monthly_income = py_round (annual_income / 12) 2,
          current_monthly_debt = debts, proposed_payment = new_payment,
          current_dti = 0, proposed_dti = 0,
          max_allowed_dti = MAX_DTI_RATIO cfg * 100,
          passes_dti_check = (0 \<le> MAX_DTI_RATIO cfg),
          dti_assessment = ''Excellent - very low debt burden''\<rparr>"
proof -
  have "\<not> 0 < annual_income / 12" using assms by simp
  then show ?thesis
    by (simp add: DTICalculatorTool_run_def py_div_def bind_res_def py_round_zero
        assess_dti_def)
qed

lemma DTICalculatorTool_run_total:
  "\<exists>r. DTICalculatorTool_run cfg annual_income debts new_payment = Inr r"
  by (simp add: DTICalculatorTool_run_def py_div_def bind_res_def)

text \<open>
  C7. Whenever the monthly income \<open>annual_income / 12\<close> is not positive, the
  calculator returns a result, raising nothing, with both ratios 0; the check then
  passes exactly when the configured maximum is not negative. In particular, under
  the default settings, an income of 0 with debts of 500 gives ratios 0 and 0 and a
  passed check. The calculator raises on no input at all.
\<close>

theorem dti_nonpositive_income:
  "(annual_income / 12 \<le> 0 \<longrightarrow>
      (\<exists>r. DTICalculatorTool_run cfg annual_income debts new_payment = Inr r
         \<and> current_dti r = 0 \<and> proposed_dti r = 0
         \<and> passes_dti_check r = (0 \<le> MAX_DTI_RATIO cfg)))
   \<and> (\<exists>r. DTICalculatorTool_run default_settings 0 500 new_payment = Inr r
         \<and> current_dti r = 0 \<and> proposed_dti r = 0 \<and> passes_dti_check r)
   \<and> (\<exists>r. DTICalculatorTool_run cfg annual_income debts new_payment = Inr r)"
proof -
  have "annual_income / 12 \<le> 0 \<longrightarrow>
      (\<exists>r. DTICalculatorTool_run cfg annual_income debts new_payment = Inr r
         \<and> current_dti r = 0 \<and> proposed_dti r = 0
         \<and> passes_dti_check r = (0 \<le> MAX_DTI_RATIO cfg))"
    by (simp add: DTICalculatorTool_run_nonpositive)
  moreover have "\<exists>r. DTICalculatorTool_run default_settings 0 500 new_payment = Inr r
         \<and> current_dti r = 0 \<and> proposed_dti r = 0 \<and> passes_dti_check r"
    by (simp add: DTICalculatorTool_run_nonpositive default_settings_def)
  ultimately show ?thesis
    using DTICalculatorTool_run_total by blast
qed

text \<open>A negative income, with a proposed payment, under the default settings.\<close>

theorem dti_nonpositive_income_witness:
  "(- 1200::real) / 12 \<le> 0
   \<and> (\<exists>r. DTICalculatorTool_run default_settings (- 1200) 500 100 = Inr r
         \<and> current_dti r = 0 \<and> proposed_dti r = 0 \<and> passes_dti_check r)"
  using dti_nonpositive_income[of "- 1200" default_settings 500 100]
  by (simp add: default_settings_def)

section \<open>Loading the settings\<close>

lemma getenv_conv_cases:
  "getenv_conv v dflt = Inl ValueError \<and> v = Unparsable
   \<or> getenv_conv v dflt = Inr (case v of Parsed x \<Rightarrow> x | _ \<Rightarrow> dflt) \<and> v \<noteq> Unparsable"
  by (cases v) (simp_all add: getenv_conv_def)

lemma load_settings_cases:
  "load_settings env = Inl ValueError
     \<and> (env_MIN_CREDIT_SCORE env = Unparsable \<or> env_MAX_DTI_RATIO env = Unparsable
          \<or> env_MIN_INCOME env = Unparsable \<or> env_BASE_INTEREST_RATE env = Unparsable)
   \<or> load_settings env =
       Inr \<lparr>MIN_CREDIT_SCORE = (case env_MIN_CREDIT_SCORE env of Parsed x \<Rightarrow> x | _ \<Rightarrow> 620),
            MAX_DTI_RATIO = (case env_MAX_DTI_RATIO env of Parsed x \<Rightarrow> x | _ \<Rightarrow> 0.43),
            MIN_INCOME = (case env_MIN_INCOME env of Parsed x \<Rightarrow> x | _ \<Rightarrow> 30000),
            BASE_INTEREST_RATE =
              (case env_BASE_INTEREST_RATE env of Parsed x \<Rightarrow> x | _ \<Rightarrow> 7.5)\<rparr>
     \<and> env_MIN_CREDIT_SCORE env \<noteq> Unparsable \<and> env_MAX_DTI_RATIO env \<noteq> Unparsable
     \<and> env_MIN_INCOME env \<noteq> Unparsable \<and> env_BASE_INTEREST_RATE env \<noteq> Unparsable"
  using getenv_conv_cases[of "env_MIN_CREDIT_SCORE env" 620]
    getenv_conv_cases[of "env_MAX_DTI_RATIO env" "0.43"]
    getenv_conv_cases[of "env_MIN_INCOME env" 30000]
    getenv_conv_cases[of "env_BASE_INTEREST_RATE env" "7.5"]
  unfolding load_settings_def bind_res_def by auto

text \<open>
  A maximum DTI ratio of -0.5 is loaded as it is, with no error. It shows later only
  as a verdict: the calculator, which passes an applicant without income under the
  default maximum, now fails the same applicant, again without raising.
\<close>

theorem negative_max_dti_accepted_counterexample:
  "load_settings (empty_environ\<lparr>env_MAX_DTI_RATIO := Parsed (- 0.5)\<rparr>)
     = Inr (default_settings\<lparr>MAX_DTI_RATIO := - 0.5\<rparr>)
   \<and> DTICalculatorTool_run (default_settings\<lparr>MAX_DTI_RATIO := - 0.5\<rparr>) 0 500 0
     = Inr \<lparr>monthly_income = 0, current_monthly_debt = 500, proposed_payment = 0,
            current_dti = 0, proposed_dti = 0, max_allowed_dti = - 50,
            passes_dti_check = False,
            dti_assessment = ''Excellent - very low debt burden''\<rparr>"
proof -
  have "load_settings (empty_environ\<lparr>env_MAX_DTI_RATIO := Parsed (- 0.5)\<rparr>)
     = Inr (default_settings\<lparr>MAX_DTI_RATIO := - 0.5\<rparr>)"
    by (simp add: load_settings_def empty_environ_def default_settings_def
        getenv_conv_def bind_res_def)
  moreover have
    "DTICalculatorTool_run (default_settings\<lparr>MAX_DTI_RATIO := - 0.5\<rparr>) 0 500 0
     = Inr \<lparr>monthly_income = 0, current_monthly_debt = 500, proposed_payment = 0,
            current_dti = 0, proposed_dti = 0, max_allowed_dti = - 50,
            passes_dti_check = False,
            dti_assessment = ''Excellent - very low debt burden''\<rparr>"
    by (simp add: DTICalculatorTool_run_nonpositive py_round_zero default_settings_def)
  ultimately show ?thesis by simp
qed

text \<open>
  C6, amended. The policy parameters are read once, when the settings are loaded,
  and are not validated. A parameter that is missing takes its default (620, 0.43,
  30000, 7.5) and a parameter that is a number is taken as it is, whatever its sign
  or size. Loading fails exactly when one of the four values is not a number, at
  once and with ValueError, and with no other error. It is not the only failure of
  the engine: the loan pricer raises ZeroDivisionError for a term of 0 months.
\<close>

theorem load_settings_accepts_every_number:
  "load_settings empty_environ = Inr default_settings
   \<and> load_settings \<lparr>env_MIN_CREDIT_SCORE = Parsed a, env_MAX_DTI_RATIO = Parsed b,
                      env_MIN_INCOME = Parsed c, env_BASE_INTEREST_RATE = Parsed d\<rparr>
       = Inr \<lparr>MIN_CREDIT_SCORE = a, MAX_DTI_RATIO = b,
              MIN_INCOME = c, BASE_INTEREST_RATE = d\<rparr>
   \<and> (load_settings env = Inr s \<longrightarrow>
         MIN_CREDIT_SCORE s = (case env_MIN_CREDIT_SCORE env of Parsed x \<Rightarrow> x | _ \<Rightarrow> 620)
       \<and> MAX_DTI_RATIO s = (case env_MAX_DTI_RATIO env of Parsed x \<Rightarrow> x | _ \<Rightarrow> 0.43)
       \<and> MIN_INCOME s = (case env_MIN_INCOME env of Parsed x \<Rightarrow> x | _ \<Rightarrow> 30000)
       \<and> BASE_INTEREST_RATE s
           = (case env_BASE_INTEREST_RATE env of Parsed x \<Rightarrow> x | _ \<Rightarrow> 7.5))
   \<and> ((\<exists>e. load_settings env = Inl e) \<longleftrightarrow>
         env_MIN_CREDIT_SCORE env = Unparsable \<or> env_MAX_DTI_RATIO env = Unparsable
         \<or> env_MIN_INCOME env = Unparsable \<or> env_BASE_INTEREST_RATE env = Unparsable)
   \<and> (load_settings env = Inl e \<longrightarrow> e = ValueError)
   \<and> LoanPricingTool_run cfg loan_amt 0 credit_tier risk_lvl = Inl ZeroDivisionError"
proof -
  have 1: "load_settings \<lparr>env_MIN_CREDIT_SCORE = Parsed a, env_MAX_DTI_RATIO = Parsed b,
                      env_MIN_INCOME = Parsed c, env_BASE_INTEREST_RATE = Parsed d\<rparr>
       = Inr \<lparr>MIN_CREDIT_SCORE = a, MAX_DTI_RATIO = b,
              MIN_INCOME = c, BASE_INTEREST_RATE = d\<rparr>"
    by (simp add: load_settings_def getenv_conv_def bind_res_def)
  have 2: "load_settings env = Inr s \<longrightarrow>
         MIN_CREDIT_SCORE s = (case env_MIN_CREDIT_SCORE env of Parsed x \<Rightarrow> x | _ \<Rightarrow> 620)
       \<and> MAX_DTI_RATIO s = (case env_MAX_DTI_RATIO env of Parsed x \<Rightarrow> x | _ \<Rightarrow> 0.43)
       \<and> MIN_INCOME s = (case env_MIN_INCOME env of Parsed x \<Rightarrow> x | _ \<Rightarrow> 30000)
       \<and> BASE_INTEREST_RATE s
           = (case env_BASE_INTEREST_RATE env of Parsed x \<Rightarrow> x | _ \<Rightarrow> 7.5)"
    using load_settings_cases[of env] by auto
  have 3: "(\<exists>e. load_settings env = Inl e) \<longleftrightarrow>
         env_MIN_CREDIT_SCORE env = Unparsable \<or> env_MAX_DTI_RATIO env = Unparsable
         \<or> env_MIN_INCOME env = Unparsable \<or> env_BASE_INTEREST_RATE env = Unparsable"
    using load_settings_cases[of env] by auto
  have 4: "load_settings env = Inl e \<longrightarrow> e = ValueError"
    using load_settings_cases[of env] by auto
  from load_settings_empty 1 2 3 4 LoanPricingTool_run_zero_term show ?thesis
    by blast
qed

text \<open>
  A base rate that is not a number stops the loading with ValueError; a minimum
  credit score of 700 is loaded, the other three parameters taking their defaults.
\<close>

theorem load_settings_accepts_every_number_witness:
  "load_settings (empty_environ\<lparr>env_BASE_INTEREST_RATE := Unparsable\<rparr>) = Inl ValueError
   \<and> load_settings (empty_environ\<lparr>env_MIN_CREDIT_SCORE := Parsed 700\<rparr>)
       = Inr (default_settings\<lparr>MIN_CREDIT_SCORE := 700\<rparr>)
   \<and> MIN_CREDIT_SCORE (default_settings\<lparr>MIN_CREDIT_SCORE := 700\<rparr>) = 700
   \<and> MAX_DTI_RATIO (default_settings\<lparr>MIN_CREDIT_SCORE := 700\<rparr>) = 0.43"
proof -
  have b: "load_settings (empty_environ\<lparr>env_MIN_CREDIT_SCORE := Parsed 700\<rparr>)
       = Inr (default_settings\<lparr>MIN_CREDIT_SCORE := 700\<rparr>)"
    by (simp add: load_settings_def empty_environ_def default_settings_def
        getenv_conv_def bind_res_def)
  have c: "env_BASE_INTEREST_RATE (empty_environ\<lparr>env_BASE_INTEREST_RATE := Unparsable\<rparr>)
      = Unparsable"
    by simp
  obtain e where
    e: "load_settings (empty_environ\<lparr>env_BASE_INTEREST_RATE := Unparsable\<rparr>) = Inl e"
    using c load_settings_accepts_every_number[of 700 "0.43" 30000 "7.5"
        "empty_environ\<lparr>env_BASE_INTEREST_RATE := Unparsable\<rparr>"]
    by blast
  then have "e = ValueError"
    using load_settings_accepts_every_number[of 700 "0.43" 30000 "7.5"
        "empty_environ\<lparr>env_BASE_INTEREST_RATE := Unparsable\<rparr>" _ e]
    by blast
  with e have a: "load_settings (empty_environ\<lparr>env_BASE_INTEREST_RATE := Unparsable\<rparr>)
      = Inl ValueError"
    by simp
  show ?thesis
    using a b
      load_settings_accepts_every_number[of 700 "0.43" 30000 "7.5"
        "empty_environ\<lparr>env_MIN_CREDIT_SCORE := Parsed 700\<rparr>"
        "default_settings\<lparr>MIN_CREDIT_SCORE := 700\<rparr>"]
    by (simp add: empty_environ_def)
qed

end
